theory Spec2Isabelle
  imports Main
begin

section \<open>The network monitors of SimpleMonitor (Monitors/network.py)\<close>

text \<open>
  The four monitor classes of \<^verbatim>\<open>Monitors/network.py\<close> (MonitorHTTP, MonitorTCP, MonitorHost,
  MonitorDNS) as HOL functions. The embedding follows Python 3: \<^verbatim>\<open>subprocess.check_output\<close>
  returns \<^verbatim>\<open>bytes\<close>, \<^verbatim>\<open>str\<close> of a \<^verbatim>\<open>bytes\<close> value is its \<^verbatim>\<open>repr\<close>, and comparing a
  \<^verbatim>\<open>str\<close> with a number by \<^verbatim>\<open>pingtime > 0\<close> raises \<^verbatim>\<open>TypeError\<close>.

  A Python \<^verbatim>\<open>str\<close> and a Python \<^verbatim>\<open>bytes\<close> value are both a \<^typ>\<open>string\<close>: a list of
  characters with code points 0 to 255. Text with code points above 255 is outside the model.
  A dictionary of options is a map from keys to values. An exception is a value; a call that
  may raise returns \<open>exn + 'a\<close>, with \<open>Inl\<close> for the exception.
\<close>

subsection \<open>Exceptions\<close>

datatype exn_class =
    RuntimeError | ValueError | TypeError | IndexError | OSError | CalledProcessError
  | UnicodeDecodeError | ReError | RequestException | OtherException

text \<open>An exception: its class and \<^verbatim>\<open>str(e)\<close>.\<close>

datatype exn = Exn exn_class string

fun exn_class_of :: "exn \<Rightarrow> exn_class" where
  "exn_class_of (Exn c m) = c"

fun py_str_exn :: "exn \<Rightarrow> string" where
  "py_str_exn (Exn c m) = m"

subsection \<open>Strings\<close>

text \<open>\<^verbatim>\<open>str.isspace\<close> on one character, for the code points below 256.\<close>

definition py_isspace :: "char \<Rightarrow> bool" where
  "py_isspace c = ((of_char c :: nat) \<in> {9, 10, 11, 12, 13, 28, 29, 30, 31, 32, 133, 160})"

text \<open>\<^verbatim>\<open>s.strip()\<close>\<close>

definition py_strip :: "string \<Rightarrow> string" where
  "py_strip s = rev (dropWhile py_isspace (rev (dropWhile py_isspace s)))"

text \<open>\<^verbatim>\<open>s.split(sep)\<close> for a separator of one character: never an empty list.\<close>

fun py_split :: "char \<Rightarrow> string \<Rightarrow> string list" where
  "py_split sep [] = [[]]"
| "py_split sep (c # cs) =
     (if c = sep then [] # py_split sep cs
      else (case py_split sep cs of
              w # ws \<Rightarrow> (c # w) # ws
            | [] \<Rightarrow> [[c]]))"

text \<open>\<^verbatim>\<open>s.startswith(p)\<close>\<close>

definition startswith :: "string \<Rightarrow> string \<Rightarrow> bool" where
  "startswith s p = (take (length p) s = p)"

text \<open>\<^verbatim>\<open>s.lower()\<close>, for the code points below 256: A to Z, and the upper-case letters of
  Latin-1 (192 to 222, without the multiplication sign 215).\<close>

definition py_lower_char :: "char \<Rightarrow> char" where
  "py_lower_char c =
     (let n = (of_char c :: nat) in
      if (65 \<le> n \<and> n \<le> 90) \<or> (192 \<le> n \<and> n \<le> 222 \<and> n \<noteq> 215) then char_of (n + 32) else c)"

definition py_lower :: "string \<Rightarrow> string" where
  "py_lower s = map py_lower_char s"

subsection \<open>Integers and text\<close>

definition is_digit :: "char \<Rightarrow> bool" where
  "is_digit c = (48 \<le> (of_char c :: nat) \<and> (of_char c :: nat) \<le> 57)"

definition digit_val :: "char \<Rightarrow> nat" where
  "digit_val c = (of_char c :: nat) - 48"

definition digit_char :: "nat \<Rightarrow> char" where
  "digit_char n = char_of (48 + n)"

text \<open>The digits of a literal after its first digit: digits, each optionally preceded by one
  underscore.\<close>

fun parse_digits :: "nat \<Rightarrow> string \<Rightarrow> nat option" where
  "parse_digits acc [] = Some acc"
| "parse_digits acc [c] = (if is_digit c then Some (10 * acc + digit_val c) else None)"
| "parse_digits acc (c # d # cs) =
     (if is_digit c then parse_digits (10 * acc + digit_val c) (d # cs)
      else if c = CHR ''_'' \<and> is_digit d then parse_digits (10 * acc + digit_val d) cs
      else None)"

text \<open>The whitespace \<^verbatim>\<open>int\<close> accepts around a numeral, for the code points below 256: tab to
  carriage return, the space, and the two above 127 that \<^verbatim>\<open>str.isspace\<close> accepts (133, 160).
  The separators 28 to 31, which \<^verbatim>\<open>str.strip\<close> removes, are not among them.\<close>

definition int_isspace :: "char \<Rightarrow> bool" where
  "int_isspace c = ((of_char c :: nat) \<in> {9, 10, 11, 12, 13, 32, 133, 160})"

definition int_strip :: "string \<Rightarrow> string" where
  "int_strip s = rev (dropWhile int_isspace (rev (dropWhile int_isspace s)))"

text \<open>\<^verbatim>\<open>int(s)\<close> for a \<^verbatim>\<open>str\<close>: surrounding whitespace, an optional sign, decimal digits with
  single underscores between them. The message of the \<^verbatim>\<open>ValueError\<close> is shortened (Python
  appends the \<^verbatim>\<open>repr\<close> of the argument), and the interpreter's limit on the number of digits
  is not modelled.\<close>

definition py_int :: "string \<Rightarrow> exn + int" where
  "py_int s =
     (let t = int_strip s;
          neg = (case t of c # r \<Rightarrow> c = CHR ''-'' | [] \<Rightarrow> False);
          body = (case t of c # r \<Rightarrow> if c = CHR ''-'' \<or> c = CHR ''+'' then r else t | [] \<Rightarrow> t)
      in case body of
           [] \<Rightarrow> Inl (Exn ValueError ''invalid literal for int() with base 10'')
         | c # cs \<Rightarrow>
             if is_digit c then
               (case parse_digits (digit_val c) cs of
                  Some n \<Rightarrow> Inr (if neg then - int n else int n)
                | None \<Rightarrow> Inl (Exn ValueError ''invalid literal for int() with base 10''))
             else Inl (Exn ValueError ''invalid literal for int() with base 10''))"

text \<open>\<^verbatim>\<open>str(n)\<close> for an integer.\<close>

fun str_nat :: "nat \<Rightarrow> string" where
  "str_nat n = (if n < 10 then [digit_char n] else str_nat (n div 10) @ [digit_char (n mod 10)])"

declare str_nat.simps [simp del]

definition py_str_int :: "int \<Rightarrow> string" where
  "py_str_int i = (if i < 0 then CHR ''-'' # str_nat (nat (- i)) else str_nat (nat i))"

text \<open>\<^verbatim>\<open>str(xs)\<close> for a list of integers: \<^verbatim>\<open>[200, 404]\<close>.\<close>

fun join_comma :: "string list \<Rightarrow> string" where
  "join_comma [] = []"
| "join_comma [x] = x"
| "join_comma (x # y # ys) = x @ '', '' @ join_comma (y # ys)"

definition py_str_int_list :: "int list \<Rightarrow> string" where
  "py_str_int_list xs = ''['' @ join_comma (map py_str_int xs) @ '']''"

subsection \<open>The text of a bytes value\<close>

text \<open>\<^verbatim>\<open>str(b)\<close> for \<^verbatim>\<open>b\<close> of type \<^verbatim>\<open>bytes\<close> is \<^verbatim>\<open>repr(b)\<close>: the letter b, a quote, the bytes
  with backslash, the quote, tab, newline, carriage return and every byte outside 32 to 126
  escaped, and the quote again. The quote is the double quote when the bytes hold a single
  quote and no double quote, and the single quote otherwise.\<close>

definition hex_digit :: "nat \<Rightarrow> char" where
  "hex_digit n = (if n < 10 then char_of (48 + n) else char_of (87 + n))"

definition bytes_quote :: "string \<Rightarrow> char" where
  "bytes_quote b = (if CHR 0x27 \<in> set b \<and> CHR 0x22 \<notin> set b then CHR 0x22 else CHR 0x27)"

definition escape_byte :: "char \<Rightarrow> char \<Rightarrow> string" where
  "escape_byte q c =
     (if c = q \<or> c = CHR 0x5C then [CHR 0x5C, c]
      else if c = CHR 0x09 then [CHR 0x5C, CHR ''t'']
      else if c = CHR 0x0A then [CHR 0x5C, CHR ''n'']
      else if c = CHR 0x0D then [CHR 0x5C, CHR ''r'']
      else if (of_char c :: nat) < 32 \<or> 127 \<le> (of_char c :: nat)
        then [CHR 0x5C, CHR ''x'', hex_digit ((of_char c :: nat) div 16),
              hex_digit ((of_char c :: nat) mod 16)]
      else [c])"

definition py_str_bytes :: "string \<Rightarrow> string" where
  "py_str_bytes b =
     CHR ''b'' # bytes_quote b # concat (map (escape_byte (bytes_quote b)) b) @ [bytes_quote b]"

subsection \<open>The interpreter and the libraries\<close>

text \<open>
  What the sources use and do not contain, taken as parameters:
  \<^item> \<open>monitor_init\<close>: \<^verbatim>\<open>Monitor.__init__\<close> of the base class (module \<^verbatim>\<open>monitor\<close>, not among these
    sources), called first by every constructor: the exception it raises, if any;
  \<^item> \<open>sys_platform\<close>: \<^verbatim>\<open>sys.platform\<close>;
  \<^item> \<open>re_compiles\<close> and \<open>re_search_ext\<close>: \<^verbatim>\<open>re.compile\<close> and the \<^verbatim>\<open>search\<close> of a compiled
    pattern, for the patterns a configuration supplies (\<open>re_search_ext p s\<close> is the named
    groups of the first match of pattern \<open>p\<close> in \<open>s\<close>, if there is one);
  \<^item> \<open>percent_ext\<close>: \<^verbatim>\<open>template % arg\<close> for a template with a conversion other than
    \<^verbatim>\<open>%s\<close> and \<^verbatim>\<open>%%\<close>;
  \<^item> \<open>format_2f\<close>: the text \<^verbatim>\<open>"%0.2f" % (seconds + (microseconds / 1000000.2))\<close>, a floating
    point computation, as a function of the two integers.
\<close>

record py_env =
  monitor_init :: "(string \<rightharpoonup> string) \<Rightarrow> exn option"
  sys_platform :: string
  re_compiles :: "string \<Rightarrow> bool"
  re_search_ext :: "string \<Rightarrow> string \<Rightarrow> (string \<times> string) list option"
  percent_ext :: "string \<Rightarrow> string \<Rightarrow> exn + string"
  format_2f :: "nat \<Rightarrow> nat \<Rightarrow> string"

subsection \<open>Formatting with one argument\<close>

text \<open>\<^verbatim>\<open>template % arg\<close> for one \<^verbatim>\<open>str\<close> argument. The template is read from the left:
  \<^verbatim>\<open>%%\<close> is a percent sign, \<^verbatim>\<open>%s\<close> takes the argument (\<^verbatim>\<open>TypeError\<close> when it is already
  taken), a percent sign at the end is a \<^verbatim>\<open>ValueError\<close>, and an argument left over at the end
  is a \<^verbatim>\<open>TypeError\<close>.\<close>

fun percent_simple :: "string \<Rightarrow> bool" where
  "percent_simple [] = True"
| "percent_simple [c] = True"
| "percent_simple (c # d # cs) =
     (if c = CHR ''%'' then (d = CHR ''s'' \<or> d = CHR ''%'') \<and> percent_simple cs
      else percent_simple (d # cs))"

fun percent_scan :: "string \<Rightarrow> string option \<Rightarrow> exn + string" where
  "percent_scan [] arg =
     (case arg of
        None \<Rightarrow> Inr []
      | Some a \<Rightarrow> Inl (Exn TypeError ''not all arguments converted during string formatting''))"
| "percent_scan [c] arg =
     (if c = CHR ''%'' then Inl (Exn ValueError ''incomplete format'')
      else map_sum id ((#) c) (percent_scan [] arg))"
| "percent_scan (c # d # cs) arg =
     (if c = CHR ''%'' then
        (if d = CHR ''%'' then map_sum id ((#) CHR ''%'') (percent_scan cs arg)
         else (case arg of
                 None \<Rightarrow> Inl (Exn TypeError ''not enough arguments for format string'')
               | Some a \<Rightarrow> map_sum id ((@) a) (percent_scan cs None)))
      else map_sum id ((#) c) (percent_scan (d # cs) arg))"

definition py_percent :: "py_env \<Rightarrow> string \<Rightarrow> string \<Rightarrow> exn + string" where
  "py_percent env template arg =
     (if percent_simple template then percent_scan template (Some arg)
      else percent_ext env template arg)"

subsection \<open>Regular expressions\<close>

text \<open>The first position of \<open>s\<close>, from the left, at which \<open>m\<close> matches.\<close>

fun search_from :: "(string \<Rightarrow> 'a option) \<Rightarrow> string \<Rightarrow> 'a option" where
  "search_from m [] = m []"
| "search_from m (c # cs) = (case m (c # cs) of Some r \<Rightarrow> Some r | None \<Rightarrow> search_from m cs)"

text \<open>A pattern without special characters matches where the text continues with it.\<close>

definition match_literal :: "string \<Rightarrow> string \<Rightarrow> (string \<times> string) list option" where
  "match_literal lit s = (if startswith s lit then Some [] else None)"

text \<open>\<^verbatim>\<open>Average = (?P<ms>\d+)ms\<close> at a position: the digits are the longest run, since no digit
  starts \<^verbatim>\<open>ms\<close>.\<close>

definition match_win_time :: "string \<Rightarrow> (string \<times> string) list option" where
  "match_win_time s =
     (if startswith s ''Average = '' then
        (let r = drop 10 s; ds = takeWhile is_digit r
         in if ds \<noteq> [] \<and> startswith (dropWhile is_digit r) ''ms'' then Some [(''ms'', ds)]
            else None)
      else None)"

text \<open>\<^verbatim>\<open>min/avg/max/stddev = [\d.]+/(?P<ms>[\d.]+)/\<close> at a position: both runs are the longest
  ones, since the slash is outside the class.\<close>

definition is_digit_or_dot :: "char \<Rightarrow> bool" where
  "is_digit_or_dot c = (is_digit c \<or> c = CHR ''.'')"

definition match_posix_time :: "string \<Rightarrow> (string \<times> string) list option" where
  "match_posix_time s =
     (if startswith s ''min/avg/max/stddev = '' then
        (let r = drop 21 s;
             a = takeWhile is_digit_or_dot r;
             r1 = dropWhile is_digit_or_dot r
         in if a \<noteq> [] \<and> startswith r1 ''/'' then
              (let r2 = drop 1 r1;
                   b = takeWhile is_digit_or_dot r2
               in if b \<noteq> [] \<and> startswith (dropWhile is_digit_or_dot r2) ''/''
                  then Some [(''ms'', b)] else None)
            else None)
      else None)"

text \<open>The patterns the constructor of MonitorHost installs (a backslash is \<open>CHR 0x5C\<close>).\<close>

definition win_time_regexp :: string where
  "win_time_regexp = ''Average = (?P<ms>'' @ [CHR 0x5C] @ ''d+)ms''"

definition posix_time_regexp :: string where
  "posix_time_regexp =
     ''min/avg/max/stddev = ['' @ [CHR 0x5C] @ ''d.]+/(?P<ms>['' @ [CHR 0x5C] @ ''d.]+)/''"

definition known_pattern :: "string \<Rightarrow> bool" where
  "known_pattern p =
     (p = [] \<or> p = ''Reply from '' \<or> p = ''bytes from'' \<or> p = win_time_regexp
      \<or> p = posix_time_regexp)"

text \<open>\<^verbatim>\<open>re.compile(p)\<close>: the compiled pattern is the pattern's text; \<^verbatim>\<open>re.error\<close> for a
  pattern the library refuses.\<close>

definition re_compile :: "py_env \<Rightarrow> string \<Rightarrow> exn + string" where
  "re_compile env p =
     (if known_pattern p \<or> re_compiles env p then Inr p
      else Inl (Exn ReError ''invalid pattern''))"

text \<open>\<^verbatim>\<open>r.search(s)\<close>: the named groups of the first match, or \<open>None\<close>.\<close>

definition re_search :: "py_env \<Rightarrow> string \<Rightarrow> string \<Rightarrow> (string \<times> string) list option" where
  "re_search env p s =
     (if p = [] then Some []
      else if p = ''Reply from '' \<or> p = ''bytes from'' then search_from (match_literal p) s
      else if p = win_time_regexp then search_from match_win_time s
      else if p = posix_time_regexp then search_from match_posix_time s
      else re_search_ext env p s)"

text \<open>\<^verbatim>\<open>m.group(name)\<close>\<close>

definition re_group :: "(string \<times> string) list \<Rightarrow> string \<Rightarrow> exn + string" where
  "re_group m name =
     (case map_of m name of
        Some v \<Rightarrow> Inr v
      | None \<Rightarrow> Inl (Exn IndexError ''no such group''))"

subsection \<open>The Result Recorder\<close>

text \<open>A message handed to the recorder: a text, or an exception object
  (\<^verbatim>\<open>self.record_fail(e)\<close>).\<close>

datatype message = Text string | ExnObj exn

datatype rec_call = RecordSuccess "message option" | RecordFail "message option"

text \<open>Modelled from the spec: \<^verbatim>\<open>record_success\<close> and \<^verbatim>\<open>record_fail\<close> are methods of the base
  class \<^verbatim>\<open>Monitor\<close>, which is not among these sources. The spec describes them as the Result
  Recorder, an external sink for \<^verbatim>\<open>success(message)\<close> and \<^verbatim>\<open>failure(message)\<close> events: a call
  is recorded and returns. The message is \<open>None\<close> when the call passes no argument.\<close>

definition record_success :: "message option \<Rightarrow> rec_call list \<Rightarrow> rec_call list" where
  "record_success m log = log @ [RecordSuccess m]"

definition record_fail :: "message option \<Rightarrow> rec_call list \<Rightarrow> rec_call list" where
  "record_fail m log = log @ [RecordFail m]"

text \<open>One run of a check: the recorder's calls in order, and the value returned or the
  exception that left \<^verbatim>\<open>run_test\<close>.\<close>

type_synonym run = "rec_call list \<times> (exn + bool)"

type_synonym config = "string \<rightharpoonup> string"

text \<open>Exceptions outside \<^verbatim>\<open>Exception\<close> (a keyboard interrupt, a system exit) are not outcomes
  of the calls below. \<open>RequestException\<close> stands for \<^verbatim>\<open>requests.exceptions.RequestException\<close>
  and its subclasses.\<close>

section \<open>MonitorHTTP\<close>

record http_probe =
  url :: string
  regexp :: "string option"
  regexp_text :: string
  allowed_codes :: "int list"
  certfile :: "string option"
  keyfile :: "string option"
  verify_hostname :: bool
  request_timeout :: int
  username :: "string option"
  password :: "string option"

text \<open>\<^verbatim>\<open>[int(x.strip()) for x in xs]\<close>: the first element that does not parse raises.\<close>

fun int_each :: "string list \<Rightarrow> exn + int list" where
  "int_each [] = Inr []"
| "int_each (x # xs) =
     (case py_int (py_strip x) of
        Inl e \<Rightarrow> Inl e
      | Inr n \<Rightarrow> (case int_each xs of Inl e \<Rightarrow> Inl e | Inr ns \<Rightarrow> Inr (n # ns)))"

text \<open>\<^verbatim>\<open>MonitorHTTP.__init__\<close>. The class attributes are the defaults: \<^verbatim>\<open>regexp = None\<close>,
  \<^verbatim>\<open>regexp_text = ""\<close>, \<^verbatim>\<open>certfile = None\<close>, \<^verbatim>\<open>keyfile = None\<close>.\<close>

definition MonitorHTTP :: "py_env \<Rightarrow> config \<Rightarrow> exn + http_probe" where
  "MonitorHTTP env config_options =
     (case monitor_init env config_options of
        Some e \<Rightarrow> Inl e
      | None \<Rightarrow>
     (case config_options ''url'' of
        None \<Rightarrow> Inl (Exn RuntimeError ''Required configuration fields missing'')
      | Some u \<Rightarrow>
     (let regexp_s = (case config_options ''regexp'' of Some r \<Rightarrow> r | None \<Rightarrow> [])
      in case (case config_options ''allowed_codes'' of
                 Some s \<Rightarrow> int_each (py_split CHR '','' s)
               | None \<Rightarrow> Inr [200]) of
           Inl e \<Rightarrow> Inl e
         | Inr codes \<Rightarrow>
     (let cert = config_options ''certfile'';
          key = (case cert of
                   None \<Rightarrow> None
                 | Some c \<Rightarrow> (case config_options ''keyfile'' of Some k \<Rightarrow> Some k | None \<Rightarrow> Some c));
          verify = (case config_options ''verify_hostname'' of
                      Some v \<Rightarrow> py_lower v \<noteq> ''false''
                    | None \<Rightarrow> True)
      in case (if regexp_s \<noteq> [] then map_sum id Some (re_compile env regexp_s) else Inr None) of
           Inl e \<Rightarrow> Inl e
         | Inr rx \<Rightarrow>
     (case (case config_options ''timeout'' of Some t \<Rightarrow> py_int t | None \<Rightarrow> Inr 5) of
        Inl e \<Rightarrow> Inl e
      | Inr tmo \<Rightarrow>
          Inr \<lparr> url = u, regexp = rx, regexp_text = (if regexp_s \<noteq> [] then regexp_s else []),
                allowed_codes = codes, certfile = cert, keyfile = key, verify_hostname = verify,
                request_timeout = tmo, username = config_options ''username'',
                password = config_options ''password'' \<rparr>)))))"

text \<open>The request \<^verbatim>\<open>requests.get\<close> receives, and the response it returns.\<close>

datatype auth =
    Anonymous
  | BasicAuth string "string option"
  | ClientCert "string option" "string option"

record http_request =
  req_url :: string
  req_timeout :: int
  req_verify :: bool
  req_auth :: auth

record http_response =
  status_code :: int
  reason :: string
  body_text :: string

text \<open>The network as one run sees it: what \<^verbatim>\<open>requests.get\<close> does with a request, and the
  \<^verbatim>\<open>seconds\<close> and \<^verbatim>\<open>microseconds\<close> of \<^verbatim>\<open>end_time - start_time\<close>.\<close>

record http_world =
  http_get :: "http_request \<Rightarrow> exn + http_response"
  load_seconds :: nat
  load_microseconds :: nat

text \<open>\<^verbatim>\<open>MonitorHTTP.run_test\<close>. The request: without a certificate and without a user name
  it is anonymous, without a certificate and with a user name it carries basic
  authentication, and otherwise the certificate and the key.\<close>

definition request_of :: "http_probe \<Rightarrow> http_request" where
  "request_of p =
     \<lparr> req_url = url p, req_timeout = request_timeout p, req_verify = verify_hostname p,
       req_auth =
         (case certfile p of
            None \<Rightarrow> (case username p of None \<Rightarrow> Anonymous | Some u \<Rightarrow> BasicAuth u (password p))
          | Some c \<Rightarrow> ClientCert (certfile p) (keyfile p)) \<rparr>"

definition run_test_http :: "py_env \<Rightarrow> http_world \<Rightarrow> http_probe \<Rightarrow> run" where
  "run_test_http env w p =
     (case http_get w (request_of p) of
           Inl e \<Rightarrow>
             (if exn_class_of e = RequestException
              then (record_fail
                      (Some (Text (''Requests exception while opening URL: '' @ py_str_exn e))) [],
                    Inr False)
              else (record_fail
                      (Some (Text (''Exception while trying to open url: '' @ py_str_exn e))) [],
                    Inr False))
         | Inr r \<Rightarrow>
             (if status_code r \<notin> set (allowed_codes p)
              then (record_fail
                      (Some (Text (''Got status '' @ [CHR 0x27] @ py_str_int (status_code r) @ '' ''
                         @ reason r @ [CHR 0x27] @ '' instead of ''
                         @ py_str_int_list (allowed_codes p)))) [],
                    Inr False)
              else (case regexp p of
                      None \<Rightarrow>
                        (record_success
                           (Some (Text (py_str_int (status_code r) @ '' in ''
                              @ format_2f env (load_seconds w) (load_microseconds w) @ ''s''))) [],
                         Inr True)
                    | Some rx \<Rightarrow>
                        (case re_search env rx (body_text r) of
                           Some m \<Rightarrow>
                             (record_success
                                (Some (Text (py_str_int (status_code r) @ '' in ''
                                   @ format_2f env (load_seconds w) (load_microseconds w)
                                   @ ''s''))) [],
                              Inr True)
                         | None \<Rightarrow>
                             (record_fail
                                (Some (Text (''Got '' @ [CHR 0x27] @ py_str_int (status_code r)
                                   @ '' '' @ reason r @ [CHR 0x27] @ '' but couldn'' @ [CHR 0x27]
                                   @ ''t match /'' @ regexp_text p @ ''/ in page.''))) [],
                              Inr False)))))"

text \<open>\<^verbatim>\<open>MonitorHTTP.get_params\<close>\<close>

definition get_params_http :: "http_probe \<Rightarrow> string \<times> string \<times> int list" where
  "get_params_http p = (url p, regexp_text p, allowed_codes p)"

section \<open>MonitorTCP\<close>

record tcp_probe =
  tcp_host :: string
  tcp_port :: int

text \<open>\<^verbatim>\<open>MonitorTCP.__init__\<close>. \<^verbatim>\<open>port\<close> is an integer once \<^verbatim>\<open>int\<close> has returned, so
  \<^verbatim>\<open>port == ""\<close> is false and the last test is \<^verbatim>\<open>port <= 0\<close>.\<close>

definition MonitorTCP :: "py_env \<Rightarrow> config \<Rightarrow> exn + tcp_probe" where
  "MonitorTCP env config_options =
     (case monitor_init env config_options of
        Some e \<Rightarrow> Inl e
      | None \<Rightarrow>
     (case config_options ''host'' of
        None \<Rightarrow> Inl (Exn RuntimeError ''Required configuration fields missing'')
      | Some h \<Rightarrow>
     (case config_options ''port'' of
        None \<Rightarrow> Inl (Exn RuntimeError ''Required configuration fields missing'')
      | Some ps \<Rightarrow>
     (case py_int ps of
        Inl e \<Rightarrow> Inl (Exn RuntimeError ''Required configuration fields missing'')
      | Inr n \<Rightarrow>
          if h = [] then Inl (Exn RuntimeError ''missing hostname'')
          else if n \<le> 0 then Inl (Exn RuntimeError ''missing or invalid port number'')
          else Inr \<lparr> tcp_host = h, tcp_port = n \<rparr>))))"

text \<open>The socket calls of one run, each with the exception it raises, if any:
  \<^verbatim>\<open>socket.socket(...)\<close>, \<^verbatim>\<open>s.settimeout(5.0)\<close>, \<^verbatim>\<open>s.connect((host, port))\<close>, \<^verbatim>\<open>s.close()\<close>.\<close>

record tcp_world =
  socket_new :: "exn option"
  sock_settimeout :: "exn option"
  sock_connect :: "string \<Rightarrow> int \<Rightarrow> exn option"
  sock_close :: "exn option"

text \<open>\<^verbatim>\<open>MonitorTCP.run_test\<close>: the socket is created before the \<^verbatim>\<open>try\<close> and closed after it.\<close>

definition run_test_tcp :: "tcp_world \<Rightarrow> tcp_probe \<Rightarrow> run" where
  "run_test_tcp w p =
     (case socket_new w of
        Some e \<Rightarrow> ([], Inl e)
      | None \<Rightarrow>
          (case (case sock_settimeout w of
                   Some e \<Rightarrow> Some e
                 | None \<Rightarrow> sock_connect w (tcp_host p) (tcp_port p)) of
             Some e \<Rightarrow> (record_fail None [], Inr False)
           | None \<Rightarrow>
               (case sock_close w of
                  Some e \<Rightarrow> ([], Inl e)
                | None \<Rightarrow> (record_success None [], Inr True))))"

text \<open>\<^verbatim>\<open>MonitorTCP.get_params\<close>\<close>

definition get_params_tcp :: "tcp_probe \<Rightarrow> string \<times> int" where
  "get_params_tcp p = (tcp_host p, tcp_port p)"

section \<open>MonitorHost\<close>

record host_probe =
  host :: string
  ping_command :: string
  ping_regexp :: string
  time_regexp :: string

text \<open>\<^verbatim>\<open>MonitorHost.__init__\<close>. \<^verbatim>\<open>ping_ttl\<close> is a \<^verbatim>\<open>str\<close>, so \<^verbatim>\<open>ping_ttl * 1000\<close> is the
  text repeated 1000 times. On a platform of no branch the \<^verbatim>\<open>RuntimeError\<close> is built and
  not raised, and the three attributes keep the class's values, the empty text.\<close>

definition MonitorHost :: "py_env \<Rightarrow> config \<Rightarrow> exn + host_probe" where
  "MonitorHost env config_options =
     (case monitor_init env config_options of
        Some e \<Rightarrow> Inl e
      | None \<Rightarrow>
     (let ping_ttl = (case config_options ''ping_ttl'' of Some t \<Rightarrow> t | None \<Rightarrow> ''5'');
          ping_ms = concat (replicate 1000 ping_ttl);
          platform = sys_platform env;
          (cmd, rx, tx) =
            (if platform \<in> set [''win32'', ''cygwin'']
             then (''ping -n 1 -w '' @ ping_ms @ '' %s'', ''Reply from '', win_time_regexp)
             else if startswith platform ''freebsd'' \<or> startswith platform ''darwin''
             then (''ping -c1 -t'' @ ping_ttl @ '' %s'', ''bytes from'', posix_time_regexp)
             else if startswith platform ''linux''
             then (''ping -c1 -W'' @ ping_ttl @ '' %s'', ''bytes from'', posix_time_regexp)
             else ([], [], []))
      in case config_options ''host'' of
           None \<Rightarrow> Inl (Exn RuntimeError ''Required configuration fields missing'')
         | Some h \<Rightarrow>
             if h = [] then Inl (Exn RuntimeError ''missing hostname'')
             else Inr \<lparr> host = h, ping_command = cmd, ping_regexp = rx, time_regexp = tx \<rparr>))"

text \<open>The value of \<^verbatim>\<open>pingtime\<close>: the float \<^verbatim>\<open>0.0\<close> it starts as, or the text of the group
  \<^verbatim>\<open>ms\<close>.\<close>

datatype pingtime = FloatZero | GroupText string

text \<open>\<^verbatim>\<open>pingtime > 0\<close>: false for \<^verbatim>\<open>0.0\<close>; a \<^verbatim>\<open>str\<close> and an \<^verbatim>\<open>int\<close> do not compare (the
  message of the \<^verbatim>\<open>TypeError\<close> is written without its quotes).\<close>

fun pingtime_gt_zero :: "pingtime \<Rightarrow> exn + bool" where
  "pingtime_gt_zero FloatZero = Inr False"
| "pingtime_gt_zero (GroupText s) =
     Inl (Exn TypeError ''> not supported between instances of str and int'')"

text \<open>\<^verbatim>\<open>"%s" % pingtime\<close>\<close>

fun py_str_pingtime :: "pingtime \<Rightarrow> string" where
  "py_str_pingtime FloatZero = ''0.0''"
| "py_str_pingtime (GroupText s) = s"

text \<open>The loop over the lines, with \<^verbatim>\<open>success\<close> and \<^verbatim>\<open>pingtime\<close> as its state.\<close>

fun scan_lines ::
  "py_env \<Rightarrow> string \<Rightarrow> string \<Rightarrow> string list \<Rightarrow> bool \<times> pingtime \<Rightarrow> exn + (bool \<times> pingtime)"
where
  "scan_lines env r r2 [] st = Inr st"
| "scan_lines env r r2 (line # ls) st =
     (case re_search env r line of
        Some m \<Rightarrow> scan_lines env r r2 ls (True, snd st)
      | None \<Rightarrow>
          (case re_search env r2 line of
             Some m \<Rightarrow>
               (case re_group m ''ms'' of
                  Inl e \<Rightarrow> Inl e
                | Inr v \<Rightarrow> scan_lines env r r2 ls (fst st, GroupText v))
           | None \<Rightarrow> scan_lines env r r2 ls st))"

text \<open>The body of the \<^verbatim>\<open>try\<close>: the command line, the subprocess (\<open>check_output\<close> maps the
  argument list to the bytes printed, or to the exception raised), and the loop over
  \<^verbatim>\<open>str(output).split("\n")\<close>.\<close>

definition ping_try ::
  "py_env \<Rightarrow> (string list \<Rightarrow> exn + string) \<Rightarrow> host_probe \<Rightarrow> string \<Rightarrow> string
     \<Rightarrow> exn + (bool \<times> pingtime)"
where
  "ping_try env check_output p r r2 =
     (case py_percent env (ping_command p) (host p) of
        Inl e \<Rightarrow> Inl e
      | Inr c \<Rightarrow>
          (case check_output (py_split CHR '' '' c) of
             Inl e \<Rightarrow> Inl e
           | Inr output \<Rightarrow>
               scan_lines env r r2 (py_split CHR 0x0A (py_str_bytes output)) (False, FloatZero)))"

text \<open>\<^verbatim>\<open>MonitorHost.run_test\<close>: the two patterns are compiled before the \<^verbatim>\<open>try\<close>, and
  \<^verbatim>\<open>pingtime > 0\<close> is evaluated after it.\<close>

definition run_test_host ::
  "py_env \<Rightarrow> (string list \<Rightarrow> exn + string) \<Rightarrow> host_probe \<Rightarrow> run"
where
  "run_test_host env check_output p =
     (case re_compile env (ping_regexp p) of
        Inl e \<Rightarrow> ([], Inl e)
      | Inr r \<Rightarrow>
     (case re_compile env (time_regexp p) of
        Inl e \<Rightarrow> ([], Inl e)
      | Inr r2 \<Rightarrow>
     (case ping_try env check_output p r r2 of
        Inl e \<Rightarrow> (record_fail (Some (ExnObj e)) [], Inr False)
      | Inr st \<Rightarrow>
          if fst st then
            (case pingtime_gt_zero (snd st) of
               Inl e \<Rightarrow> ([], Inl e)
             | Inr b \<Rightarrow>
                 if b then (record_success (Some (Text (py_str_pingtime (snd st) @ ''ms''))) [],
                            Inr True)
                 else (record_success None [], Inr True))
          else (record_fail None [], Inr False))))"

text \<open>\<^verbatim>\<open>MonitorHost.get_params\<close>: a tuple of one element.\<close>

definition get_params_host :: "host_probe \<Rightarrow> string" where
  "get_params_host p = host p"

section \<open>MonitorDNS\<close>

record dns_probe =
  path :: string
  desired_val :: "string option"
  server :: "string option"
  params :: "string list"
  rectype :: "string option"

text \<open>The class attribute \<^verbatim>\<open>command\<close>.\<close>

definition dns_command :: string where
  "dns_command = ''dig''"

text \<open>\<^verbatim>\<open>MonitorDNS.__init__\<close>. \<^verbatim>\<open>if self.server:\<close> holds for a server that is present and not
  the empty text.\<close>

definition MonitorDNS :: "py_env \<Rightarrow> config \<Rightarrow> exn + dns_probe" where
  "MonitorDNS env config_options =
     (case monitor_init env config_options of
        Some e \<Rightarrow> Inl e
      | None \<Rightarrow>
     (case config_options ''record'' of
        None \<Rightarrow> Inl (Exn RuntimeError ''Required configuration fields missing'')
      | Some rec_name \<Rightarrow>
          if rec_name = [] then Inl (Exn RuntimeError ''Required configuration fields missing'')
          else
            Inr \<lparr> path = rec_name,
                  desired_val = config_options ''desired_val'',
                  server = config_options ''server'',
                  params =
                    [dns_command]
                    @ (case config_options ''server'' of
                         None \<Rightarrow> []
                       | Some sv \<Rightarrow> if sv \<noteq> [] then [''@'' @ sv] else [])
                    @ (case config_options ''record_type'' of
                         None \<Rightarrow> []
                       | Some t \<Rightarrow> [''-t'', t])
                    @ [rec_name, ''+short''],
                  rectype = config_options ''record_type'' \<rparr>))"

text \<open>\<^verbatim>\<open>MonitorDNS.run_test\<close>. \<open>dig\<close> is the statement
  \<^verbatim>\<open>subprocess.check_output(self.params).decode('utf-8')\<close>: the text decoded, or the exception
  of the subprocess or of the decoding. A \<^verbatim>\<open>str\<close> is never \<^verbatim>\<open>None\<close>, so the first test is
  \<^verbatim>\<open>result == ''\<close>; \<^verbatim>\<open>self.desired_val and ...\<close> holds only for a value that is present and
  not the empty text.\<close>

definition run_test_dns :: "(string list \<Rightarrow> exn + string) \<Rightarrow> dns_probe \<Rightarrow> run" where
  "run_test_dns dig p =
     (case dig (params p) of
        Inl e \<Rightarrow>
          (record_fail
             (Some (Text (''Exception while executing '' @ dns_command @ '': '' @ py_str_exn e))) [],
           Inr False)
      | Inr out \<Rightarrow>
          (let result = py_strip out
           in if result = [] then
                (record_fail (Some (Text (''failed to resolve '' @ path p))) [], Inr False)
              else
                (case desired_val p of
                   None \<Rightarrow> (record_success None [], Inr True)
                 | Some d \<Rightarrow>
                     if d \<noteq> [] \<and> result \<noteq> d then
                       (record_fail
                          (Some (Text (''resolved DNS record is unexpected: '' @ d @ '' != ''
                             @ result))) [],
                        Inr False)
                     else (record_success None [], Inr True))))"

text \<open>\<^verbatim>\<open>MonitorDNS.get_params\<close>: a tuple of one element.\<close>

definition get_params_dns :: "dns_probe \<Rightarrow> string" where
  "get_params_dns p = path p"

section \<open>An environment for the examples\<close>

text \<open>An interpreter on the given platform whose base constructor returns, whose \<^verbatim>\<open>re\<close>
  compiles every pattern and finds no match for the patterns a configuration supplies,
  whose formatting refuses the conversions it is asked about, and whose clock differences
  print as \<^verbatim>\<open>0.00\<close>. The examples below are evaluated in it.\<close>

definition env_on :: "string \<Rightarrow> py_env" where
  "env_on platform =
     \<lparr> monitor_init = (\<lambda>c. None), sys_platform = platform, re_compiles = (\<lambda>p. True),
       re_search_ext = (\<lambda>p s. None),
       percent_ext = (\<lambda>t a. Inl (Exn ValueError ''unsupported format character'')),
       format_2f = (\<lambda>s us. ''0.00'') \<rparr>"

section \<open>Properties\<close>

subsection \<open>Helper facts\<close>

lemma concat_replicate_single: "concat (replicate n [c]) = replicate n c"
  by (induction n) simp_all

text \<open>The text of a bytes value holds no newline, so \<^verbatim>\<open>str(output).split("\n")\<close> is one
  line.\<close>

lemma hex_digit_not_newline: "n < 16 \<Longrightarrow> hex_digit n \<noteq> CHR 0x0A"
proof -
  assume n: "n < 16"
  have "(of_char (hex_digit n) :: nat) \<noteq> 10"
    using n by (simp add: hex_digit_def)
  then show ?thesis by auto
qed

lemma escape_byte_no_newline:
  assumes "q \<noteq> CHR 0x0A"
  shows "CHR 0x0A \<notin> set (escape_byte q c)"
proof -
  have a: "(of_char c :: nat) div 16 < 16"
    by (simp add: less_mult_imp_div_less)
  have b: "(of_char c :: nat) mod 16 < 16" by simp
  show ?thesis
    using assms hex_digit_not_newline [OF a] hex_digit_not_newline [OF b]
    by (auto simp: escape_byte_def)
qed

lemma bytes_quote_not_newline: "bytes_quote b \<noteq> CHR 0x0A"
  by (simp add: bytes_quote_def)

lemma py_str_bytes_no_newline: "CHR 0x0A \<notin> set (py_str_bytes b)"
proof -
  have q: "bytes_quote b \<noteq> CHR 0x0A"
    by (rule bytes_quote_not_newline)
  have e: "\<And>c. CHR 0x0A \<notin> set (escape_byte (bytes_quote b) c)"
    by (rule escape_byte_no_newline [OF q])
  show ?thesis
    unfolding py_str_bytes_def using q q [symmetric] e by simp
qed

lemma py_split_absent: "sep \<notin> set s \<Longrightarrow> py_split sep s = [s]"
  by (induction s) auto

lemma str_bytes_one_line: "py_split CHR 0x0A (py_str_bytes b) = [py_str_bytes b]"
  by (rule py_split_absent [OF py_str_bytes_no_newline])

text \<open>With one line, \<^verbatim>\<open>success\<close> and a captured \<^verbatim>\<open>pingtime\<close> exclude each other: the time
  pattern is tried only where the reply pattern did not match.\<close>

lemma scan_one_line:
  assumes "scan_lines env r r2 [l] (False, FloatZero) = Inr st"
  shows "st = (True, FloatZero) \<or> fst st = False"
  using assms
  by (auto split: option.splits sum.splits)

lemma constructed_patterns_known:
  assumes "MonitorHost env cfg = Inr p"
  shows "known_pattern (ping_regexp p) \<and> known_pattern (time_regexp p)"
proof -
  define t where "t = (case cfg ''ping_ttl'' of Some t \<Rightarrow> t | None \<Rightarrow> ''5'')"
  from assms obtain h where "cfg ''host'' = Some h"
    by (cases "cfg ''host''") (simp_all add: MonitorHost_def Let_def split: option.splits prod.splits)
  with assms show ?thesis
    unfolding MonitorHost_def Let_def t_def [symmetric]
    by (auto simp: known_pattern_def split: option.splits if_splits)
qed

lemma run_test_host_outcomes:
  assumes "MonitorHost env cfg = Inr p"
  shows "run_test_host env check_output p = ([RecordSuccess None], Inr True)
       \<or> run_test_host env check_output p = ([RecordFail None], Inr False)
       \<or> (\<exists>e. ping_try env check_output p (ping_regexp p) (time_regexp p) = Inl e
              \<and> run_test_host env check_output p = ([RecordFail (Some (ExnObj e))], Inr False))"
proof -
  from constructed_patterns_known [OF assms]
  have c1: "re_compile env (ping_regexp p) = Inr (ping_regexp p)"
    and c2: "re_compile env (time_regexp p) = Inr (time_regexp p)"
    by (simp_all add: re_compile_def)
  show ?thesis
  proof (cases "ping_try env check_output p (ping_regexp p) (time_regexp p)")
    case (Inl e)
    then show ?thesis
      by (simp add: run_test_host_def c1 c2 record_fail_def)
  next
    case (Inr st)
    then obtain l where "scan_lines env (ping_regexp p) (time_regexp p) [l] (False, FloatZero) = Inr st"
      by (auto simp: ping_try_def str_bytes_one_line simp del: scan_lines.simps split: sum.splits)
    then have "st = (True, FloatZero) \<or> fst st = False"
      by (rule scan_one_line)
    with Inr show ?thesis
      by (auto simp: run_test_host_def c1 c2 record_fail_def record_success_def)
  qed
qed

text \<open>A run that returns has called the recorder once.\<close>

lemma run_test_http_one_call: "\<exists>c b. run_test_http env w p = ([c], Inr b)"
  by (auto simp: run_test_http_def record_success_def record_fail_def
           split: sum.splits option.splits)

lemma run_test_dns_one_call: "\<exists>c b. run_test_dns dig p = ([c], Inr b)"
  by (auto simp: run_test_dns_def record_success_def record_fail_def Let_def
           split: sum.splits option.splits)

lemma run_test_host_one_call:
  assumes "MonitorHost env cfg = Inr p"
  shows "\<exists>c b. run_test_host env check_output p = ([c], Inr b)"
  using run_test_host_outcomes [OF assms, of check_output] by auto

lemma run_test_host_fault:
  assumes "MonitorHost env cfg = Inr p"
    and "ping_try env check_output p (ping_regexp p) (time_regexp p) = Inl e"
  shows "run_test_host env check_output p = ([RecordFail (Some (ExnObj e))], Inr False)"
proof -
  from constructed_patterns_known [OF assms(1)]
  have "re_compile env (ping_regexp p) = Inr (ping_regexp p)"
    and "re_compile env (time_regexp p) = Inr (time_regexp p)"
    by (simp_all add: re_compile_def)
  with assms(2) show ?thesis
    by (simp add: run_test_host_def record_fail_def)
qed

lemma run_test_tcp_one_call:
  assumes "socket_new w = None" and "sock_close w = None"
  shows "\<exists>c b. run_test_tcp w p = ([c], Inr b)"
  using assms
  by (auto simp: run_test_tcp_def record_success_def record_fail_def split: option.splits)

lemma py_int_empty: "py_int [] = Inl (Exn ValueError ''invalid literal for int() with base 10'')"
  by (simp add: py_int_def int_strip_def)

subsection \<open>MonitorHTTP: the outcome for a response\<close>

text \<open>C3: for every HTTP probe and every response received: a status code outside
  \<open>allowed_codes\<close> records a failure whose message holds the status, the reason and the
  allowed list; an allowed status without a pattern records success with the status and the
  elapsed time; with a pattern, a match in the body records the same success, and no match
  records a failure whose message holds the status, the reason and the text of the
  pattern.\<close>

theorem http_run_test_cases:
  assumes "http_get w (request_of p) = Inr r"
  shows "(status_code r \<notin> set (allowed_codes p) \<longrightarrow>
            run_test_http env w p =
              ([RecordFail (Some (Text (''Got status '' @ [CHR 0x27] @ py_str_int (status_code r)
                  @ '' '' @ reason r @ [CHR 0x27] @ '' instead of ''
                  @ py_str_int_list (allowed_codes p))))], Inr False))
       \<and> (status_code r \<in> set (allowed_codes p) \<and> regexp p = None \<longrightarrow>
            run_test_http env w p =
              ([RecordSuccess (Some (Text (py_str_int (status_code r) @ '' in ''
                  @ format_2f env (load_seconds w) (load_microseconds w) @ ''s'')))], Inr True))
       \<and> (\<forall>rx. status_code r \<in> set (allowed_codes p) \<and> regexp p = Some rx
                \<and> re_search env rx (body_text r) \<noteq> None \<longrightarrow>
            run_test_http env w p =
              ([RecordSuccess (Some (Text (py_str_int (status_code r) @ '' in ''
                  @ format_2f env (load_seconds w) (load_microseconds w) @ ''s'')))], Inr True))
       \<and> (\<forall>rx. status_code r \<in> set (allowed_codes p) \<and> regexp p = Some rx
                \<and> re_search env rx (body_text r) = None \<longrightarrow>
            run_test_http env w p =
              ([RecordFail (Some (Text (''Got '' @ [CHR 0x27] @ py_str_int (status_code r)
                  @ '' '' @ reason r @ [CHR 0x27] @ '' but couldn'' @ [CHR 0x27]
                  @ ''t match /'' @ regexp_text p @ ''/ in page.'')))], Inr False))"
  using assms
  by (auto simp: run_test_http_def record_success_def record_fail_def
           split: option.splits if_splits)

text \<open>C3 at a probe built from a configuration with only a URL: a 404 fails with the message
  \<^verbatim>\<open>Got status '404 Not Found' instead of [200]\<close>, a 200 succeeds.\<close>

theorem http_run_test_cases_witness:
  "MonitorHTTP (env_on ''linux'') [''url'' \<mapsto> ''http://example.com/''] =
     Inr \<lparr> url = ''http://example.com/'', regexp = None, regexp_text = [],
           allowed_codes = [200], certfile = None, keyfile = None, verify_hostname = True,
           request_timeout = 5, username = None, password = None \<rparr>
   \<and> run_test_http (env_on ''linux'')
         \<lparr> http_get = (\<lambda>q. Inr \<lparr> status_code = 404, reason = ''Not Found'', body_text = [] \<rparr>),
           load_seconds = 0, load_microseconds = 1500 \<rparr>
         \<lparr> url = ''http://example.com/'', regexp = None, regexp_text = [],
           allowed_codes = [200], certfile = None, keyfile = None, verify_hostname = True,
           request_timeout = 5, username = None, password = None \<rparr> =
       ([RecordFail (Some (Text (''Got status '' @ [CHR 0x27] @ ''404 Not Found'' @ [CHR 0x27]
            @ '' instead of [200]'')))], Inr False)
   \<and> run_test_http (env_on ''linux'')
         \<lparr> http_get = (\<lambda>q. Inr \<lparr> status_code = 200, reason = ''OK'', body_text = ''OK'' \<rparr>),
           load_seconds = 0, load_microseconds = 1500 \<rparr>
         \<lparr> url = ''http://example.com/'', regexp = None, regexp_text = [],
           allowed_codes = [200], certfile = None, keyfile = None, verify_hostname = True,
           request_timeout = 5, username = None, password = None \<rparr> =
       ([RecordSuccess (Some (Text ''200 in 0.00s''))], Inr True)"
proof -
  let ?p = "\<lparr> url = ''http://example.com/'', regexp = None, regexp_text = [],
           allowed_codes = [200], certfile = None, keyfile = None, verify_hostname = True,
           request_timeout = 5, username = None, password = None \<rparr>"
  let ?r1 = "\<lparr> status_code = 404, reason = ''Not Found'', body_text = [] \<rparr>"
  let ?r2 = "\<lparr> status_code = 200, reason = ''OK'', body_text = ''OK'' \<rparr>"
  let ?w1 = "\<lparr> http_get = (\<lambda>q. Inr ?r1), load_seconds = 0, load_microseconds = 1500 \<rparr>"
  let ?w2 = "\<lparr> http_get = (\<lambda>q. Inr ?r2), load_seconds = 0, load_microseconds = 1500 \<rparr>"
  have c: "MonitorHTTP (env_on ''linux'') [''url'' \<mapsto> ''http://example.com/''] = Inr ?p"
    by (simp add: MonitorHTTP_def env_on_def)
  have e1: "py_str_int 404 = ''404''" by code_simp
  have e2: "py_str_int 200 = ''200''" by code_simp
  have e3: "py_str_int_list [200] = ''[200]''" by code_simp
  have g1: "http_get ?w1 (request_of ?p) = Inr ?r1" by simp
  have g2: "http_get ?w2 (request_of ?p) = Inr ?r2" by simp
  have a1: "run_test_http (env_on ''linux'') ?w1 ?p =
       ([RecordFail (Some (Text (''Got status '' @ [CHR 0x27] @ ''404 Not Found'' @ [CHR 0x27]
            @ '' instead of [200]'')))], Inr False)"
    using http_run_test_cases [OF g1, of "env_on ''linux''"] e1 e3 by simp
  have a2: "run_test_http (env_on ''linux'') ?w2 ?p =
       ([RecordSuccess (Some (Text ''200 in 0.00s''))], Inr True)"
    using http_run_test_cases [OF g2, of "env_on ''linux''"] e2 by (simp add: env_on_def)
  from c a1 a2 show ?thesis by blast
qed

subsection \<open>MonitorDNS: the outcome for an output\<close>

text \<open>C5, amended: for every DNS probe and every text the command printed: an output that is
  empty after \<open>strip\<close> records a failure naming the record; a \<open>desired_val\<close> that is present and
  not empty and differs from the stripped output records a failure holding both values; in
  every other case (no \<open>desired_val\<close>, an empty one, or one equal to the stripped output)
  success is recorded with no message.\<close>

theorem dns_run_test_cases:
  assumes "dig (params p) = Inr out"
  shows "(py_strip out = [] \<longrightarrow>
            run_test_dns dig p =
              ([RecordFail (Some (Text (''failed to resolve '' @ path p)))], Inr False))
       \<and> (\<forall>d. py_strip out \<noteq> [] \<and> desired_val p = Some d \<and> d \<noteq> [] \<and> py_strip out \<noteq> d \<longrightarrow>
            run_test_dns dig p =
              ([RecordFail (Some (Text (''resolved DNS record is unexpected: '' @ d @ '' != ''
                                          @ py_strip out)))], Inr False))
       \<and> (py_strip out \<noteq> [] \<and>
            (desired_val p = None \<or> desired_val p = Some [] \<or> desired_val p = Some (py_strip out)) \<longrightarrow>
            run_test_dns dig p = ([RecordSuccess None], Inr True))"
  using assms
  by (auto simp: run_test_dns_def record_success_def record_fail_def Let_def
           split: option.splits if_splits)

theorem dns_run_test_cases_witness:
  "run_test_dns (\<lambda>argv. Inr [CHR 0x0A])
         \<lparr> path = ''example.com'', desired_val = Some ''192.0.2.1'', server = None,
           params = [''dig'', ''example.com'', ''+short''], rectype = None \<rparr> =
       ([RecordFail (Some (Text ''failed to resolve example.com''))], Inr False)
   \<and> run_test_dns (\<lambda>argv. Inr (''192.0.2.7'' @ [CHR 0x0A]))
         \<lparr> path = ''example.com'', desired_val = Some ''192.0.2.1'', server = None,
           params = [''dig'', ''example.com'', ''+short''], rectype = None \<rparr> =
       ([RecordFail (Some (Text ''resolved DNS record is unexpected: 192.0.2.1 != 192.0.2.7''))],
        Inr False)
   \<and> run_test_dns (\<lambda>argv. Inr (''192.0.2.1'' @ [CHR 0x0A]))
         \<lparr> path = ''example.com'', desired_val = Some ''192.0.2.1'', server = None,
           params = [''dig'', ''example.com'', ''+short''], rectype = None \<rparr> =
       ([RecordSuccess None], Inr True)"
proof -
  let ?p = "\<lparr> path = ''example.com'', desired_val = Some ''192.0.2.1'', server = None,
           params = [''dig'', ''example.com'', ''+short''], rectype = None \<rparr>"
  have s1: "py_strip [CHR 0x0A] = []" by code_simp
  have s2: "py_strip (''192.0.2.7'' @ [CHR 0x0A]) = ''192.0.2.7''" by code_simp
  have s3: "py_strip (''192.0.2.1'' @ [CHR 0x0A]) = ''192.0.2.1''" by code_simp
  have a1: "run_test_dns (\<lambda>argv. Inr [CHR 0x0A]) ?p =
       ([RecordFail (Some (Text ''failed to resolve example.com''))], Inr False)"
    using dns_run_test_cases [of "\<lambda>argv. Inr [CHR 0x0A]" ?p "[CHR 0x0A]"] s1 by simp
  have a2: "run_test_dns (\<lambda>argv. Inr (''192.0.2.7'' @ [CHR 0x0A])) ?p =
       ([RecordFail (Some (Text ''resolved DNS record is unexpected: 192.0.2.1 != 192.0.2.7''))],
        Inr False)"
    using dns_run_test_cases [of "\<lambda>argv. Inr (''192.0.2.7'' @ [CHR 0x0A])" ?p
            "''192.0.2.7'' @ [CHR 0x0A]"] s2 by simp
  have a3: "run_test_dns (\<lambda>argv. Inr (''192.0.2.1'' @ [CHR 0x0A])) ?p =
       ([RecordSuccess None], Inr True)"
    using dns_run_test_cases [of "\<lambda>argv. Inr (''192.0.2.1'' @ [CHR 0x0A])" ?p
            "''192.0.2.1'' @ [CHR 0x0A]"] s3 by simp
  from a1 a2 a3 show ?thesis by blast
qed

text \<open>C5 as it is written fails where \<open>desired_val\<close> is set to the empty text: the output
  differs from it, and success is recorded.\<close>

theorem dns_set_but_empty_desired_val_counterexample:
  "desired_val \<lparr> path = ''example.org'', desired_val = Some [], server = None,
                 params = [''dig'', ''example.org'', ''+short''], rectype = None \<rparr> = Some []
   \<and> py_strip (''192.0.2.1'' @ [CHR 0x0A]) \<noteq> []
   \<and> run_test_dns (\<lambda>argv. Inr (''192.0.2.1'' @ [CHR 0x0A]))
         \<lparr> path = ''example.org'', desired_val = Some [], server = None,
           params = [''dig'', ''example.org'', ''+short''], rectype = None \<rparr> =
       ([RecordSuccess None], Inr True)"
  by code_simp

text \<open>C9: a DNS probe constructed with \<open>desired_val\<close> present and empty skips the
  comparison: every output that is not empty after \<open>strip\<close> records success.\<close>

theorem dns_empty_desired_val_is_skipped:
  assumes "MonitorDNS env cfg = Inr p"
    and "cfg ''desired_val'' = Some []"
    and "dig (params p) = Inr out"
    and "py_strip out \<noteq> []"
  shows "desired_val p = Some [] \<and> run_test_dns dig p = ([RecordSuccess None], Inr True)"
  using assms
  by (auto simp: MonitorDNS_def run_test_dns_def record_success_def Let_def
           split: option.splits if_splits)

theorem dns_empty_desired_val_is_skipped_witness:
  "MonitorDNS (env_on ''linux'') [''record'' \<mapsto> ''example.com'', ''desired_val'' \<mapsto> []] =
     Inr \<lparr> path = ''example.com'', desired_val = Some [], server = None,
           params = [''dig'', ''example.com'', ''+short''], rectype = None \<rparr>
   \<and> py_strip (''93.184.216.34'' @ [CHR 0x0A]) = ''93.184.216.34''
   \<and> run_test_dns (\<lambda>argv. Inr (''93.184.216.34'' @ [CHR 0x0A]))
         \<lparr> path = ''example.com'', desired_val = Some [], server = None,
           params = [''dig'', ''example.com'', ''+short''], rectype = None \<rparr> =
       ([RecordSuccess None], Inr True)"
proof -
  have h1: "MonitorDNS (env_on ''linux'') [''record'' \<mapsto> ''example.com'', ''desired_val'' \<mapsto> []] =
     Inr \<lparr> path = ''example.com'', desired_val = Some [], server = None,
           params = [''dig'', ''example.com'', ''+short''], rectype = None \<rparr>"
    by (simp add: MonitorDNS_def env_on_def dns_command_def)
  have h2: "[''record'' \<mapsto> ''example.com'', ''desired_val'' \<mapsto> []] ''desired_val'' = Some []"
    by simp
  have h3: "(\<lambda>argv. Inr (''93.184.216.34'' @ [CHR 0x0A]) :: exn + string)
              (params \<lparr> path = ''example.com'', desired_val = Some [], server = None,
                 params = [''dig'', ''example.com'', ''+short''], rectype = None \<rparr>) =
            Inr (''93.184.216.34'' @ [CHR 0x0A])"
    by simp
  have h4: "py_strip (''93.184.216.34'' @ [CHR 0x0A]) = ''93.184.216.34''"
    by code_simp
  have h5: "py_strip (''93.184.216.34'' @ [CHR 0x0A]) \<noteq> []"
    by code_simp
  from dns_empty_desired_val_is_skipped [OF h1 h2 h3 h5] h1 h4 show ?thesis
    by simp
qed

subsection \<open>MonitorHost: the command line on Windows\<close>

text \<open>C10: on the Windows family (\<^verbatim>\<open>win32\<close>, \<^verbatim>\<open>cygwin\<close>) the wait argument of the ping command
  is the text of \<open>ping_ttl\<close> repeated 1000 times; for the default \<^verbatim>\<open>"5"\<close> it is 1000 characters
  \<^verbatim>\<open>5\<close>.\<close>

theorem windows_wait_is_repeated_ttl:
  assumes "sys_platform env = ''win32'' \<or> sys_platform env = ''cygwin''"
    and "MonitorHost env cfg = Inr p"
  shows "ping_command p =
           ''ping -n 1 -w ''
           @ concat (replicate 1000 (case cfg ''ping_ttl'' of Some t \<Rightarrow> t | None \<Rightarrow> ''5''))
           @ '' %s''
         \<and> (cfg ''ping_ttl'' = None \<longrightarrow>
              ping_command p = ''ping -n 1 -w '' @ replicate 1000 CHR ''5'' @ '' %s'')"
  using assms
  by (auto simp: MonitorHost_def Let_def concat_replicate_single split: option.splits if_splits)

theorem windows_wait_is_repeated_ttl_witness:
  "sys_platform (env_on ''win32'') = ''win32''
   \<and> MonitorHost (env_on ''win32'') [''host'' \<mapsto> ''example.com''] =
       Inr \<lparr> host = ''example.com'',
             ping_command = ''ping -n 1 -w '' @ concat (replicate 1000 ''5'') @ '' %s'',
             ping_regexp = ''Reply from '', time_regexp = win_time_regexp \<rparr>
   \<and> ping_command
         \<lparr> host = ''example.com'',
           ping_command = ''ping -n 1 -w '' @ concat (replicate 1000 ''5'') @ '' %s'',
           ping_regexp = ''Reply from '', time_regexp = win_time_regexp \<rparr> =
       ''ping -n 1 -w '' @ replicate 1000 CHR ''5'' @ '' %s''"
proof -
  have h1: "sys_platform (env_on ''win32'') = ''win32''"
    by (simp add: env_on_def)
  have h2: "MonitorHost (env_on ''win32'') [''host'' \<mapsto> ''example.com''] =
       Inr \<lparr> host = ''example.com'',
             ping_command = ''ping -n 1 -w '' @ concat (replicate 1000 ''5'') @ '' %s'',
             ping_regexp = ''Reply from '', time_regexp = win_time_regexp \<rparr>"
    by (simp add: MonitorHost_def env_on_def)
  have h3: "[''host'' \<mapsto> ''example.com''] ''ping_ttl'' = None"
    by simp
  from windows_wait_is_repeated_ttl [OF disjI1 [OF h1] h2] h3 h1 h2 show ?thesis
    by blast
qed

subsection \<open>Faults of a run\<close>

text \<open>C1, amended: a run of an HTTP or a DNS probe, and of a Host probe built by its
  constructor, returns whatever its external calls do, with one call to the recorder; an
  exception of \<^verbatim>\<open>requests.get\<close>, of the \<^verbatim>\<open>dig\<close> command (or of decoding its output) and of the
  body of the ping \<^verbatim>\<open>try\<close> becomes a failure whose message is built from the exception. A run of
  a TCP probe whose socket is created and closed without an exception returns as well, and
  an exception of \<^verbatim>\<open>settimeout\<close> or \<^verbatim>\<open>connect\<close> becomes a failure with no message.\<close>

theorem run_test_converts_faults:
  "(\<exists>c b. run_test_http env w p = ([c], Inr b))
   \<and> (http_get w (request_of p) = Inl e \<longrightarrow>
        run_test_http env w p =
          ([RecordFail (Some (Text
              ((if exn_class_of e = RequestException
                then ''Requests exception while opening URL: ''
                else ''Exception while trying to open url: '') @ py_str_exn e)))], Inr False))
   \<and> (\<exists>c b. run_test_dns dig dp = ([c], Inr b))
   \<and> (dig (params dp) = Inl e \<longrightarrow>
        run_test_dns dig dp =
          ([RecordFail (Some (Text (''Exception while executing dig: '' @ py_str_exn e)))],
           Inr False))
   \<and> (MonitorHost env cfg = Inr hp \<longrightarrow>
        (\<exists>c b. run_test_host env check_output hp = ([c], Inr b))
        \<and> (ping_try env check_output hp (ping_regexp hp) (time_regexp hp) = Inl e \<longrightarrow>
             run_test_host env check_output hp = ([RecordFail (Some (ExnObj e))], Inr False)))
   \<and> (socket_new tw = None \<and> sock_close tw = None \<longrightarrow>
        (\<exists>c b. run_test_tcp tw tp = ([c], Inr b))
        \<and> (sock_settimeout tw = Some e
             \<or> sock_connect tw (tcp_host tp) (tcp_port tp) = Some e \<longrightarrow>
             run_test_tcp tw tp = ([RecordFail None], Inr False)))"
proof -
  have http: "http_get w (request_of p) = Inl e \<longrightarrow>
        run_test_http env w p =
          ([RecordFail (Some (Text
              ((if exn_class_of e = RequestException
                then ''Requests exception while opening URL: ''
                else ''Exception while trying to open url: '') @ py_str_exn e)))], Inr False)"
    by (simp add: run_test_http_def record_fail_def)
  have dns: "dig (params dp) = Inl e \<longrightarrow>
        run_test_dns dig dp =
          ([RecordFail (Some (Text (''Exception while executing dig: '' @ py_str_exn e)))],
           Inr False)"
    by (simp add: run_test_dns_def record_fail_def dns_command_def)
  have host: "MonitorHost env cfg = Inr hp \<longrightarrow>
        (\<exists>c b. run_test_host env check_output hp = ([c], Inr b))
        \<and> (ping_try env check_output hp (ping_regexp hp) (time_regexp hp) = Inl e \<longrightarrow>
             run_test_host env check_output hp = ([RecordFail (Some (ExnObj e))], Inr False))"
  proof
    assume c: "MonitorHost env cfg = Inr hp"
    from run_test_host_fault [OF c, of check_output e] run_test_host_one_call [OF c, of check_output]
    show "(\<exists>c b. run_test_host env check_output hp = ([c], Inr b))
        \<and> (ping_try env check_output hp (ping_regexp hp) (time_regexp hp) = Inl e \<longrightarrow>
             run_test_host env check_output hp = ([RecordFail (Some (ExnObj e))], Inr False))"
      by auto
  qed
  have tcp: "socket_new tw = None \<and> sock_close tw = None \<longrightarrow>
        (\<exists>c b. run_test_tcp tw tp = ([c], Inr b))
        \<and> (sock_settimeout tw = Some e
             \<or> sock_connect tw (tcp_host tp) (tcp_port tp) = Some e \<longrightarrow>
             run_test_tcp tw tp = ([RecordFail None], Inr False))"
    by (auto simp: run_test_tcp_def record_success_def record_fail_def split: option.splits)
  from run_test_http_one_call [of env w p] http run_test_dns_one_call [of dig dp] dns host tcp
  show ?thesis by blast
qed

theorem run_test_converts_faults_witness:
  "run_test_http (env_on ''linux'')
     \<lparr> http_get = (\<lambda>q. Inl (Exn RequestException ''Read timed out.'')),
       load_seconds = 5, load_microseconds = 0 \<rparr>
     \<lparr> url = ''http://example.com/'', regexp = None, regexp_text = [],
       allowed_codes = [200], certfile = None, keyfile = None, verify_hostname = True,
       request_timeout = 5, username = None, password = None \<rparr> =
     ([RecordFail (Some (Text ''Requests exception while opening URL: Read timed out.''))],
      Inr False)
   \<and> run_test_dns (\<lambda>argv. Inl (Exn OSError ''[Errno 2] No such file or directory''))
       \<lparr> path = ''example.com'', desired_val = None, server = None,
         params = [''dig'', ''example.com'', ''+short''], rectype = None \<rparr> =
     ([RecordFail (Some (Text
         ''Exception while executing dig: [Errno 2] No such file or directory''))], Inr False)
   \<and> MonitorHost (env_on ''linux'') [''host'' \<mapsto> ''192.0.2.9''] =
       Inr \<lparr> host = ''192.0.2.9'', ping_command = ''ping -c1 -W5 %s'',
             ping_regexp = ''bytes from'', time_regexp = posix_time_regexp \<rparr>
   \<and> run_test_host (env_on ''linux'')
       (\<lambda>argv. Inl (Exn CalledProcessError ''returned non-zero exit status 1''))
       \<lparr> host = ''192.0.2.9'', ping_command = ''ping -c1 -W5 %s'',
         ping_regexp = ''bytes from'', time_regexp = posix_time_regexp \<rparr> =
     ([RecordFail (Some (ExnObj (Exn CalledProcessError ''returned non-zero exit status 1'')))],
      Inr False)
   \<and> run_test_tcp
       \<lparr> socket_new = None, sock_settimeout = None,
         sock_connect = (\<lambda>h n. Some (Exn OSError ''timed out'')), sock_close = None \<rparr>
       \<lparr> tcp_host = ''192.0.2.9'', tcp_port = 22 \<rparr> = ([RecordFail None], Inr False)"
proof -
  let ?E = "env_on ''linux''"
  let ?e1 = "Exn RequestException ''Read timed out.''"
  let ?w = "\<lparr> http_get = (\<lambda>q. Inl ?e1), load_seconds = 5, load_microseconds = 0 \<rparr>"
  let ?p = "\<lparr> url = ''http://example.com/'', regexp = None, regexp_text = [],
       allowed_codes = [200], certfile = None, keyfile = None, verify_hostname = True,
       request_timeout = 5, username = None, password = None \<rparr>"
  let ?e2 = "Exn OSError ''[Errno 2] No such file or directory''"
  let ?dp = "\<lparr> path = ''example.com'', desired_val = None, server = None,
         params = [''dig'', ''example.com'', ''+short''], rectype = None \<rparr>"
  let ?e3 = "Exn CalledProcessError ''returned non-zero exit status 1''"
  let ?hp = "\<lparr> host = ''192.0.2.9'', ping_command = ''ping -c1 -W5 %s'',
         ping_regexp = ''bytes from'', time_regexp = posix_time_regexp \<rparr>"
  let ?e4 = "Exn OSError ''timed out''"
  let ?tw = "\<lparr> socket_new = None, sock_settimeout = None,
         sock_connect = (\<lambda>h n. Some ?e4), sock_close = None \<rparr>"
  let ?tp = "\<lparr> tcp_host = ''192.0.2.9'', tcp_port = 22 \<rparr>"
  have a1: "run_test_http ?E ?w ?p =
     ([RecordFail (Some (Text ''Requests exception while opening URL: Read timed out.''))],
      Inr False)"
    using run_test_converts_faults [where env = ?E and w = ?w and p = ?p and e = ?e1]
    by simp
  have a2: "run_test_dns (\<lambda>argv. Inl ?e2) ?dp =
     ([RecordFail (Some (Text
         ''Exception while executing dig: [Errno 2] No such file or directory''))], Inr False)"
    using run_test_converts_faults [where dig = "\<lambda>argv. Inl ?e2" and dp = ?dp and e = ?e2]
    by simp
  have c: "MonitorHost ?E [''host'' \<mapsto> ''192.0.2.9''] = Inr ?hp"
    by (simp add: MonitorHost_def env_on_def startswith_def)
  have t: "ping_try ?E (\<lambda>argv. Inl ?e3) ?hp (ping_regexp ?hp) (time_regexp ?hp) = Inl ?e3"
    by code_simp
  have a3: "run_test_host ?E (\<lambda>argv. Inl ?e3) ?hp = ([RecordFail (Some (ExnObj ?e3))], Inr False)"
    using run_test_converts_faults [where env = ?E and cfg = "[''host'' \<mapsto> ''192.0.2.9'']"
        and hp = ?hp and check_output = "\<lambda>argv. Inl ?e3" and e = ?e3] c t
    by blast
  have a4: "run_test_tcp ?tw ?tp = ([RecordFail None], Inr False)"
    using run_test_converts_faults [where tw = ?tw and tp = ?tp and e = ?e4]
    by simp
  from a1 a2 c a3 a4 show ?thesis by blast
qed

text \<open>C1 as it is written promises a descriptive message for every fault: a refused TCP
  connection is recorded by \<^verbatim>\<open>self.record_fail()\<close>, with no message.\<close>

theorem tcp_failure_has_no_message_counterexample:
  "run_test_tcp
     \<lparr> socket_new = None, sock_settimeout = None,
       sock_connect = (\<lambda>h n. Some (Exn OSError ''[Errno 111] Connection refused'')),
       sock_close = None \<rparr>
     \<lparr> tcp_host = ''example.com'', tcp_port = 81 \<rparr> = ([RecordFail None], Inr False)"
  by (simp add: run_test_tcp_def record_fail_def)

text \<open>C2: every run calls the recorder exactly once. It fails for a TCP probe when
  \<^verbatim>\<open>socket.socket\<close> raises: the statement stands before the \<^verbatim>\<open>try\<close>, the exception leaves
  \<^verbatim>\<open>run_test\<close>, and the recorder is not called.\<close>

theorem tcp_socket_creation_raises:
  "MonitorTCP (env_on ''linux'') [''host'' \<mapsto> ''example.com'', ''port'' \<mapsto> ''80''] =
     Inr \<lparr> tcp_host = ''example.com'', tcp_port = 80 \<rparr>
   \<and> run_test_tcp
       \<lparr> socket_new = Some (Exn OSError ''[Errno 24] Too many open files''),
         sock_settimeout = None, sock_connect = (\<lambda>h n. None), sock_close = None \<rparr>
       \<lparr> tcp_host = ''example.com'', tcp_port = 80 \<rparr> =
     ([], Inl (Exn OSError ''[Errno 24] Too many open files''))"
proof -
  have "py_int ''80'' = Inr 80" by code_simp
  then show ?thesis
    by (simp add: MonitorTCP_def env_on_def run_test_tcp_def)
qed

subsection \<open>MonitorHost: the output of ping\<close>

text \<open>C4: the success message holds the round-trip time the time pattern captured. It fails
  for the output of a reachable host: the text of the \<^verbatim>\<open>bytes\<close> is one line, the reply pattern
  matches it, the time pattern is never tried, and success is recorded with no message,
  although each pattern matches its own line of the output.\<close>

theorem ping_time_is_not_reported:
  "MonitorHost (env_on ''darwin'') [''host'' \<mapsto> ''10.0.0.1''] =
     Inr \<lparr> host = ''10.0.0.1'', ping_command = ''ping -c1 -t5 %s'', ping_regexp = ''bytes from'',
           time_regexp = posix_time_regexp \<rparr>
   \<and> re_search (env_on ''darwin'') ''bytes from''
        ''64 bytes from 10.0.0.1: icmp_seq=0 ttl=64 time=0.5 ms'' = Some []
   \<and> re_search (env_on ''darwin'') posix_time_regexp
        ''round-trip min/avg/max/stddev = 0.5/0.6/0.7/0.1 ms'' = Some [(''ms'', ''0.6'')]
   \<and> run_test_host (env_on ''darwin'')
        (\<lambda>argv. Inr (''64 bytes from 10.0.0.1: icmp_seq=0 ttl=64 time=0.5 ms'' @ [CHR 0x0A]
                     @ ''round-trip min/avg/max/stddev = 0.5/0.6/0.7/0.1 ms'' @ [CHR 0x0A]))
        \<lparr> host = ''10.0.0.1'', ping_command = ''ping -c1 -t5 %s'', ping_regexp = ''bytes from'',
          time_regexp = posix_time_regexp \<rparr> =
      ([RecordSuccess None], Inr True)"
  by code_simp

subsection \<open>Construction\<close>

text \<open>C6: for every probe type, constructing with a required key absent or empty raises
  \<^verbatim>\<open>RuntimeError("Required configuration fields missing")\<close>; in particular an HTTP probe with
  \<^verbatim>\<open>url\<close> absent or empty fails to construct. It fails for an empty \<^verbatim>\<open>url\<close>:
  \<^verbatim>\<open>MonitorHTTP.__init__\<close> tests only that the key is present, where the constructors of the
  three other classes test their required value against the empty text, and the probe is
  constructed with the empty URL.\<close>

theorem http_empty_url_constructs:
  "MonitorHTTP (env_on ''linux'') [''url'' \<mapsto> []] =
     Inr \<lparr> url = [], regexp = None, regexp_text = [], allowed_codes = [200], certfile = None,
           keyfile = None, verify_hostname = True, request_timeout = 5, username = None,
           password = None \<rparr>"
  by (simp add: MonitorHTTP_def env_on_def)

text \<open>The tests the constructors do make, with the base constructor returning: an absent
  required key raises \<^verbatim>\<open>RuntimeError("Required configuration fields missing")\<close> in all four,
  and so do an empty \<^verbatim>\<open>port\<close> of a TCP probe and an empty \<^verbatim>\<open>record\<close> of a DNS probe; an empty
  \<^verbatim>\<open>host\<close> of a TCP probe (with a port that \<^verbatim>\<open>int\<close> accepts) and of a Host probe raises
  \<^verbatim>\<open>RuntimeError("missing hostname")\<close>, a message of its own.\<close>

lemma required_keys_checked:
  assumes "monitor_init env cfg = None"
  shows "(cfg ''url'' = None \<longrightarrow>
            MonitorHTTP env cfg = Inl (Exn RuntimeError ''Required configuration fields missing''))
       \<and> (cfg ''host'' = None \<or> cfg ''port'' = None \<or> cfg ''port'' = Some [] \<longrightarrow>
            MonitorTCP env cfg = Inl (Exn RuntimeError ''Required configuration fields missing''))
       \<and> (cfg ''host'' = Some [] \<and> cfg ''port'' = Some ps \<and> py_int ps = Inr n \<longrightarrow>
            MonitorTCP env cfg = Inl (Exn RuntimeError ''missing hostname''))
       \<and> (cfg ''host'' = None \<longrightarrow>
            MonitorHost env cfg = Inl (Exn RuntimeError ''Required configuration fields missing''))
       \<and> (cfg ''host'' = Some [] \<longrightarrow>
            MonitorHost env cfg = Inl (Exn RuntimeError ''missing hostname''))
       \<and> (cfg ''record'' = None \<or> cfg ''record'' = Some [] \<longrightarrow>
            MonitorDNS env cfg = Inl (Exn RuntimeError ''Required configuration fields missing''))"
proof -
  have http: "cfg ''url'' = None \<longrightarrow>
            MonitorHTTP env cfg = Inl (Exn RuntimeError ''Required configuration fields missing'')"
    using assms by (simp add: MonitorHTTP_def)
  have tcp1: "cfg ''host'' = None \<or> cfg ''port'' = None \<or> cfg ''port'' = Some [] \<longrightarrow>
            MonitorTCP env cfg = Inl (Exn RuntimeError ''Required configuration fields missing'')"
    using assms by (auto simp: MonitorTCP_def py_int_empty split: option.splits)
  have tcp2: "cfg ''host'' = Some [] \<and> cfg ''port'' = Some ps \<and> py_int ps = Inr n \<longrightarrow>
            MonitorTCP env cfg = Inl (Exn RuntimeError ''missing hostname'')"
    using assms by (simp add: MonitorTCP_def)
  have host1: "cfg ''host'' = None \<longrightarrow>
            MonitorHost env cfg = Inl (Exn RuntimeError ''Required configuration fields missing'')"
    using assms by (simp add: MonitorHost_def Let_def split: prod.splits)
  have host2: "cfg ''host'' = Some [] \<longrightarrow>
            MonitorHost env cfg = Inl (Exn RuntimeError ''missing hostname'')"
    using assms by (simp add: MonitorHost_def Let_def split: prod.splits)
  have dns: "cfg ''record'' = None \<or> cfg ''record'' = Some [] \<longrightarrow>
            MonitorDNS env cfg = Inl (Exn RuntimeError ''Required configuration fields missing'')"
    using assms by (auto simp: MonitorDNS_def)
  from http tcp1 tcp2 host1 host2 dns show ?thesis by blast
qed

lemma required_keys_checked_example:
  "monitor_init (env_on ''linux'') [''host'' \<mapsto> [], ''port'' \<mapsto> ''80''] = None
   \<and> py_int ''80'' = Inr 80
   \<and> MonitorHTTP (env_on ''linux'') [''host'' \<mapsto> [], ''port'' \<mapsto> ''80''] =
       Inl (Exn RuntimeError ''Required configuration fields missing'')
   \<and> MonitorTCP (env_on ''linux'') [''host'' \<mapsto> [], ''port'' \<mapsto> ''80''] =
       Inl (Exn RuntimeError ''missing hostname'')
   \<and> MonitorHost (env_on ''linux'') [''host'' \<mapsto> [], ''port'' \<mapsto> ''80''] =
       Inl (Exn RuntimeError ''missing hostname'')
   \<and> MonitorDNS (env_on ''linux'') [''host'' \<mapsto> [], ''port'' \<mapsto> ''80''] =
       Inl (Exn RuntimeError ''Required configuration fields missing'')"
proof -
  have i: "monitor_init (env_on ''linux'') [''host'' \<mapsto> [], ''port'' \<mapsto> ''80''] = None"
    by (simp add: env_on_def)
  have n: "py_int ''80'' = Inr 80" by code_simp
  from required_keys_checked [OF i, of "''80''" 80] i n show ?thesis
    by simp
qed

lemma empty_host_has_its_own_message:
  "MonitorTCP (env_on ''linux'') [''host'' \<mapsto> [], ''port'' \<mapsto> ''443''] =
     Inl (Exn RuntimeError ''missing hostname'')
   \<and> MonitorHost (env_on ''linux'') [''host'' \<mapsto> []] =
     Inl (Exn RuntimeError ''missing hostname'')"
proof -
  have "py_int ''443'' = Inr 443" by code_simp
  then show ?thesis
    by (simp add: MonitorTCP_def MonitorHost_def env_on_def startswith_def)
qed

text \<open>\<^verbatim>\<open>int\<close> refuses a numeral behind a separator (code point 28), so such a port is a missing
  field, whatever the host.\<close>

lemma port_behind_separator_is_refused:
  "py_int (CHR 0x1C # ''80'') = Inl (Exn ValueError ''invalid literal for int() with base 10'')
   \<and> MonitorTCP (env_on ''linux'') [''host'' \<mapsto> [], ''port'' \<mapsto> CHR 0x1C # ''80''] =
     Inl (Exn RuntimeError ''Required configuration fields missing'')"
proof -
  have "py_int (CHR 0x1C # ''80'') = Inl (Exn ValueError ''invalid literal for int() with base 10'')"
    by code_simp
  then show ?thesis
    by (simp add: MonitorTCP_def env_on_def)
qed

text \<open>C7: constructing a Host probe on a platform of no recognised family fails. It does not:
  the \<^verbatim>\<open>RuntimeError\<close> of the last branch is built and never raised, and the probe is
  constructed with an empty command and empty patterns.\<close>

theorem unknown_platform_constructs:
  "MonitorHost (env_on ''sunos5'') [''host'' \<mapsto> ''example.com''] =
     Inr \<lparr> host = ''example.com'', ping_command = [], ping_regexp = [], time_regexp = [] \<rparr>"
  by (simp add: MonitorHost_def env_on_def startswith_def)

subsection \<open>Identity\<close>

text \<open>C8, amended: \<open>get_params\<close> of a constructed probe is (host, port as an integer) for TCP,
  (url, text of the pattern, allowed codes) for HTTP, the host alone for a Host probe and the
  record alone for a DNS probe.\<close>

theorem get_params_of_constructed:
  "(MonitorTCP env cfg = Inr tp \<longrightarrow>
      (\<exists>h ps. cfg ''host'' = Some h \<and> cfg ''port'' = Some ps \<and> py_int ps = Inr (tcp_port tp)
               \<and> get_params_tcp tp = (h, tcp_port tp)))
   \<and> (MonitorHTTP env cfg = Inr hp \<longrightarrow>
      (\<exists>u. cfg ''url'' = Some u
           \<and> get_params_http hp =
               (u, (case cfg ''regexp'' of Some r \<Rightarrow> r | None \<Rightarrow> []), allowed_codes hp)
           \<and> (case cfg ''allowed_codes'' of
                 None \<Rightarrow> allowed_codes hp = [200]
               | Some s \<Rightarrow> int_each (py_split CHR '','' s) = Inr (allowed_codes hp))))
   \<and> (MonitorHost env cfg = Inr pp \<longrightarrow> cfg ''host'' = Some (get_params_host pp))
   \<and> (MonitorDNS env cfg = Inr dp \<longrightarrow> cfg ''record'' = Some (get_params_dns dp))"
proof -
  have tcp: "MonitorTCP env cfg = Inr tp \<longrightarrow>
      (\<exists>h ps. cfg ''host'' = Some h \<and> cfg ''port'' = Some ps \<and> py_int ps = Inr (tcp_port tp)
               \<and> get_params_tcp tp = (h, tcp_port tp))"
    by (auto simp: MonitorTCP_def get_params_tcp_def split: option.splits sum.splits if_splits)
  have http: "MonitorHTTP env cfg = Inr hp \<longrightarrow>
      (\<exists>u. cfg ''url'' = Some u
           \<and> get_params_http hp =
               (u, (case cfg ''regexp'' of Some r \<Rightarrow> r | None \<Rightarrow> []), allowed_codes hp)
           \<and> (case cfg ''allowed_codes'' of
                 None \<Rightarrow> allowed_codes hp = [200]
               | Some s \<Rightarrow> int_each (py_split CHR '','' s) = Inr (allowed_codes hp)))"
  proof
    assume a: "MonitorHTTP env cfg = Inr hp"
    from a obtain u where u: "cfg ''url'' = Some u"
      by (cases "cfg ''url''") (simp_all add: MonitorHTTP_def split: option.splits)
    define codes where "codes = (case cfg ''allowed_codes'' of
                   Some s \<Rightarrow> int_each (py_split CHR '','' s)
                 | None \<Rightarrow> Inr [200])"
    define rs where "rs = (case cfg ''regexp'' of Some r \<Rightarrow> r | None \<Rightarrow> [])"
    from a u have "url hp = u \<and> regexp_text hp = rs \<and> codes = Inr (allowed_codes hp)"
      unfolding MonitorHTTP_def Let_def codes_def [symmetric] rs_def [symmetric]
      by (auto split: option.splits sum.splits if_splits)
    then show "\<exists>u. cfg ''url'' = Some u
           \<and> get_params_http hp =
               (u, (case cfg ''regexp'' of Some r \<Rightarrow> r | None \<Rightarrow> []), allowed_codes hp)
           \<and> (case cfg ''allowed_codes'' of
                 None \<Rightarrow> allowed_codes hp = [200]
               | Some s \<Rightarrow> int_each (py_split CHR '','' s) = Inr (allowed_codes hp))"
      using u by (auto simp: get_params_http_def codes_def rs_def split: option.splits)
  qed
  have host: "MonitorHost env cfg = Inr pp \<longrightarrow> cfg ''host'' = Some (get_params_host pp)"
    by (auto simp: MonitorHost_def get_params_host_def Let_def
             split: option.splits if_splits prod.splits)
  have dns: "MonitorDNS env cfg = Inr dp \<longrightarrow> cfg ''record'' = Some (get_params_dns dp)"
    by (auto simp: MonitorDNS_def get_params_dns_def split: option.splits if_splits)
  from tcp http host dns show ?thesis by blast
qed

theorem get_params_of_constructed_witness:
  "MonitorTCP (env_on ''linux'') [''host'' \<mapsto> ''example.com'', ''port'' \<mapsto> ''8080''] =
     Inr \<lparr> tcp_host = ''example.com'', tcp_port = 8080 \<rparr>
   \<and> get_params_tcp \<lparr> tcp_host = ''example.com'', tcp_port = 8080 \<rparr> = (''example.com'', 8080)"
proof -
  have n: "py_int ''8080'' = Inr 8080" by code_simp
  have c: "MonitorTCP (env_on ''linux'') [''host'' \<mapsto> ''example.com'', ''port'' \<mapsto> ''8080''] =
     Inr \<lparr> tcp_host = ''example.com'', tcp_port = 8080 \<rparr>"
    using n by (simp add: MonitorTCP_def env_on_def)
  from get_params_of_constructed [where env = "env_on ''linux''"
      and cfg = "[''host'' \<mapsto> ''example.com'', ''port'' \<mapsto> ''8080'']"
      and tp = "\<lparr> tcp_host = ''example.com'', tcp_port = 8080 \<rparr>"] c
  show ?thesis by simp
qed

text \<open>C8 as it is written has the identity of a DNS probe reflect the server and the record
  type: two probes that differ in both have the same identity.\<close>

theorem dns_identity_ignores_server_counterexample:
  "MonitorDNS (env_on ''linux'')
     [''record'' \<mapsto> ''example.com'', ''server'' \<mapsto> ''8.8.8.8'', ''record_type'' \<mapsto> ''MX''] =
     Inr \<lparr> path = ''example.com'', desired_val = None, server = Some ''8.8.8.8'',
           params = [''dig'', ''@8.8.8.8'', ''-t'', ''MX'', ''example.com'', ''+short''],
           rectype = Some ''MX'' \<rparr>
   \<and> MonitorDNS (env_on ''linux'') [''record'' \<mapsto> ''example.com''] =
     Inr \<lparr> path = ''example.com'', desired_val = None, server = None,
           params = [''dig'', ''example.com'', ''+short''], rectype = None \<rparr>
   \<and> get_params_dns
       \<lparr> path = ''example.com'', desired_val = None, server = Some ''8.8.8.8'',
         params = [''dig'', ''@8.8.8.8'', ''-t'', ''MX'', ''example.com'', ''+short''],
         rectype = Some ''MX'' \<rparr> =
     get_params_dns
       \<lparr> path = ''example.com'', desired_val = None, server = None,
         params = [''dig'', ''example.com'', ''+short''], rectype = None \<rparr>"
  by (simp add: MonitorDNS_def env_on_def dns_command_def get_params_dns_def)

end
